theory Spec2Isabelle
  imports Complex_Main
begin

text \<open>
  The form, chat, forwarding and voice logic of the application's frontend: the
  components DynamicForm, ChatInterface, App and VoiceButton, the services ApiService and
  VoiceService, and the environment configuration. State is passed explicitly, a throw is
  the left summand of a result, and what the network, the file system and the platform
  answer is a parameter of the function that asks.
\<close>

section \<open>JavaScript values\<close>

text \<open>
  The form data, the chat responses and the response bodies are JSON-like JavaScript
  values. Numbers are IEEE doubles in the source; the model keeps their order and their
  special values (the two infinities and NaN) and carries the finite ones as reals, so
  rounding and the sign of zero are outside the model. Objects are association lists in
  insertion order; a key occurs at most once in a list built by \<open>obj_set\<close>, and reads
  go through \<open>map_of\<close>, which takes the first entry. \<open>Builtin\<close> stands for the
  functions and objects that the runtime provides, by their names. JSON arrays are not
  among the values of the model.
\<close>

datatype number = Fin real | PosInf | NegInf | NaN

datatype jsval = Undefined | Null | Bool bool | Number number | Str string
  | Obj "(string \<times> jsval) list" | Builtin string

datatype error = Error string | TypeError string

text \<open>Truthiness, as \<open>!x\<close>, \<open>x || y\<close> and \<open>if (x)\<close> decide it.\<close>

fun truthy :: "jsval \<Rightarrow> bool" where
  "truthy Undefined = False"
| "truthy Null = False"
| "truthy (Bool b) = b"
| "truthy (Number (Fin r)) = (r \<noteq> 0)"
| "truthy (Number NaN) = False"
| "truthy (Number PosInf) = True"
| "truthy (Number NegInf) = True"
| "truthy (Str s) = (s \<noteq> [])"
| "truthy (Obj kvs) = True"
| "truthy (Builtin n) = True"

definition nullish :: "jsval \<Rightarrow> bool" where
  "nullish v = (v = Undefined \<or> v = Null)"

text \<open>\<open>{...o, [k]: v}\<close> on the entries of \<open>o\<close>: an existing key keeps its place.\<close>

fun obj_set :: "string \<Rightarrow> jsval \<Rightarrow> (string \<times> jsval) list \<Rightarrow> (string \<times> jsval) list" where
  "obj_set k v [] = [(k, v)]"
| "obj_set k v ((k', v') # kvs) =
     (if k' = k then (k, v) # kvs else (k', v') # obj_set k v kvs)"

fun digit :: "nat \<Rightarrow> char" where
  "digit n = (''0123456789'' ! (n mod 10))"

fun dec :: "nat \<Rightarrow> string" where
  "dec n = (if n < 10 then [digit n] else dec (n div 10) @ [digit (n mod 10)])"

declare dec.simps [simp del]

text \<open>The indexed characters of a string, which are its own enumerable properties.\<close>

definition str_entries :: "string \<Rightarrow> (string \<times> jsval) list" where
  "str_entries s = zip (map dec [0..<length s]) (map (\<lambda>c. Str [c]) s)"

text \<open>
  The own enumerable properties that the spread \<open>{...v}\<close> copies: the entries of an
  object, the indexed characters of a string, nothing for any other value.
\<close>

fun spread :: "jsval \<Rightarrow> (string \<times> jsval) list" where
  "spread (Obj kvs) = kvs"
| "spread (Str s) = str_entries s"
| "spread v = []"

text \<open>
  The names that every value inherits from \<open>Object.prototype\<close>. What is read under
  them is a built-in function or object of the runtime, which is truthy.
\<close>

definition object_prototype :: "string list" where
  "object_prototype =
     [''constructor'', ''__defineGetter__'', ''__defineSetter__'', ''hasOwnProperty'',
      ''__lookupGetter__'', ''__lookupSetter__'', ''isPrototypeOf'', ''propertyIsEnumerable'',
      ''toString'', ''valueOf'', ''__proto__'', ''toLocaleString'']"

definition inherited :: "string \<Rightarrow> jsval" where
  "inherited k = (if k \<in> set object_prototype then Builtin k else Undefined)"

text \<open>
  A property read on a value that is neither null nor undefined: the own property of
  that name when the value has one, else what the value inherits. The further names of
  the wrapper prototypes (\<open>String.prototype.charAt\<close>, \<open>Number.prototype.toFixed\<close>, ...)
  and the own properties of the built-in functions are not modelled; the properties of
  the validation below are stated for form data that is an object, where the read is
  exact.
\<close>

fun read_prop :: "jsval \<Rightarrow> string \<Rightarrow> jsval" where
  "read_prop (Obj kvs) k = (case map_of kvs k of Some v \<Rightarrow> v | None \<Rightarrow> inherited k)"
| "read_prop (Str s) k =
     (if k = ''length'' then Number (Fin (real (length s)))
      else case map_of (str_entries s) k of Some v \<Rightarrow> v | None \<Rightarrow> inherited k)"
| "read_prop v k = inherited k"

text \<open>\<open>v[k]\<close> throws a TypeError on null and undefined; \<open>v?.[k]\<close> reads undefined there.\<close>

definition member :: "jsval \<Rightarrow> string \<Rightarrow> error + jsval" where
  "member v k =
     (if nullish v then Inl (TypeError ''Cannot read properties of null or undefined'')
      else Inr (read_prop v k))"

definition opt_member :: "jsval \<Rightarrow> string \<Rightarrow> jsval" where
  "opt_member v k = (if nullish v then Undefined else read_prop v k)"

section \<open>The schema\<close>

text \<open>
  A schema as the backend's parser sends it: the fields in order, a nested schema on a
  field of type object. Only the attributes that the form logic reads are kept.
\<close>

datatype form_field = Field (fname: string) (ftype: string) (required: bool)
    (options: "string list option") (nested_schema: "schema option")
and schema = Schema (model_name: "string option") (schema_fields: "form_field list option")

section \<open>DynamicForm\<close>

record dynamic_form =
  formData :: jsval
  validationErrors :: "(string \<times> jsval) list"

text \<open>The effect on \<open>initialData\<close>: the form's data is replaced by the read_prop.\<close>

definition initialData_effect :: "jsval \<Rightarrow> dynamic_form \<Rightarrow> dynamic_form" where
  "initialData_effect initialData st = st\<lparr>formData := initialData\<rparr>"

definition handleFieldChange :: "string \<Rightarrow> jsval \<Rightarrow> dynamic_form \<Rightarrow> dynamic_form" where
  "handleFieldChange fieldName v st =
     st\<lparr>formData := Obj (obj_set fieldName v (spread (formData st))),
        validationErrors :=
          (if truthy (read_prop (Obj (validationErrors st)) fieldName)
           then obj_set fieldName Null (validationErrors st)
           else validationErrors st)\<rparr>"

text \<open>
  The \<open>onChange\<close> that a FormField of an object field hands to the FormField of each
  nested field: it rebuilds the object field's value and passes it up.
\<close>

definition nested_onChange ::
  "(string \<Rightarrow> jsval \<Rightarrow> 's) \<Rightarrow> string \<Rightarrow> jsval \<Rightarrow> string \<Rightarrow> jsval \<Rightarrow> 's" where
  "nested_onChange onChange field_name val fieldName fieldValue =
     onChange field_name (Obj (obj_set fieldName fieldValue (spread val)))"

text \<open>
  A change made in the FormField reached from the FormField of field \<open>name\<close> (with props
  \<open>val\<close> and \<open>onChange\<close>) by descending through the nested fields \<open>ks\<close>: each level
  renders its nested fields with \<open>value?.[nestedField.name]\<close> and the nested
  \<open>onChange\<close>.
\<close>

fun field_change ::
  "(string \<Rightarrow> jsval \<Rightarrow> 's) \<Rightarrow> string \<Rightarrow> jsval \<Rightarrow> string list \<Rightarrow> jsval \<Rightarrow> 's" where
  "field_change onChange name val [] v = onChange name v"
| "field_change onChange name val (k # ks) v =
     field_change (nested_onChange onChange name val) k (opt_member val k) ks v"

text \<open>
  Writing at the path \<open>p # ps\<close>: DynamicForm renders the FormField of the top-level field
  \<open>p\<close> with \<open>formData[p]\<close> and \<open>handleFieldChange\<close>.
\<close>

definition setField :: "string \<Rightarrow> string list \<Rightarrow> jsval \<Rightarrow> dynamic_form \<Rightarrow> error + dynamic_form" where
  "setField p ps v st =
     (case member (formData st) p of
        Inl e \<Rightarrow> Inl e
      | Inr val \<Rightarrow> Inr (field_change (\<lambda>n x. handleFieldChange n x st) p val ps v))"

text \<open>Reading at a path, as the render does: \<open>formData[p]\<close>, then \<open>value?.[k]\<close>.\<close>

fun read_below :: "jsval \<Rightarrow> string list \<Rightarrow> jsval" where
  "read_below v [] = v"
| "read_below v (k # ks) = read_below (opt_member v k) ks"

definition read_field :: "jsval \<Rightarrow> string \<Rightarrow> string list \<Rightarrow> error + jsval" where
  "read_field fd p ps =
     (case member fd p of Inl e \<Rightarrow> Inl e | Inr v \<Rightarrow> Inr (read_below v ps))"

text \<open>
  The \<open>forEach\<close> of \<open>validateForm\<close>, with the \<open>errors\<close> object as accumulator. The
  assignment \<open>errors[name] = ...\<close> makes an own property, as \<open>obj_set\<close> does; under the
  one name \<open>__proto__\<close> it would reach the setter of \<open>Object.prototype\<close> instead, which
  the model does not tell apart.
\<close>

fun validate_fields ::
  "jsval \<Rightarrow> form_field list \<Rightarrow> (string \<times> jsval) list \<Rightarrow> error + (string \<times> jsval) list" where
  "validate_fields fd [] errors = Inr errors"
| "validate_fields fd (f # fs) errors =
     (if required f
      then (case member fd (fname f) of
              Inl e \<Rightarrow> Inl e
            | Inr x \<Rightarrow>
                validate_fields fd fs
                  (if \<not> truthy x \<or> x = Str ''''
                   then obj_set (fname f) (Str (fname f @ '' is required'')) errors
                   else errors))
      else validate_fields fd fs errors)"

definition validateForm :: "schema \<Rightarrow> dynamic_form \<Rightarrow> error + (dynamic_form \<times> bool)" where
  "validateForm sch st =
     (case schema_fields sch of
        None \<Rightarrow> Inr (st\<lparr>validationErrors := []\<rparr>, True)
      | Some fs \<Rightarrow>
          (case validate_fields (formData st) fs [] of
             Inl e \<Rightarrow> Inl e
           | Inr errors \<Rightarrow> Inr (st\<lparr>validationErrors := errors\<rparr>, length errors = 0)))"

text \<open>The value that a change below an object field hands to the level above.\<close>

fun rebuilt :: "jsval \<Rightarrow> string list \<Rightarrow> jsval \<Rightarrow> jsval" where
  "rebuilt val [] v = v"
| "rebuilt val (k # ks) v = Obj (obj_set k (rebuilt (opt_member val k) ks v) (spread val))"

subsection \<open>Validation as the specification words it\<close>

text \<open>
  The specification's \<open>validate\<close>: every field marked required, at every nesting level
  that is reachable, whose value is missing from the ValueMap gives its path; the children
  of a nested field are visited when the nested field is present or required. A value is
  missing when the ValueMap has no entry for the name. This definition is written from
  the specification, to be compared with \<open>validateForm\<close>.
\<close>

fun spec_validate_field :: "string list \<Rightarrow> (string \<times> jsval) list \<Rightarrow> form_field \<Rightarrow> string list list"
and spec_validate_fields :: "string list \<Rightarrow> (string \<times> jsval) list \<Rightarrow> form_field list \<Rightarrow> string list list"
where
  "spec_validate_field path vm (Field n t r os ns) =
     (if r \<and> map_of vm n = None then [path @ [n]] else []) @
     (case ns of
        Some (Schema m (Some children)) \<Rightarrow>
          (if map_of vm n \<noteq> None \<or> r
           then spec_validate_fields (path @ [n])
                  (case map_of vm n of Some (Obj sub) \<Rightarrow> sub | _ \<Rightarrow> []) children
           else [])
      | _ \<Rightarrow> [])"
| "spec_validate_fields path vm [] = []"
| "spec_validate_fields path vm (f # fs) =
     spec_validate_field path vm f @ spec_validate_fields path vm fs"

section \<open>ChatInterface and App\<close>

definition is_space :: "char \<Rightarrow> bool" where
  "is_space c =
     (c = CHR '' '' \<or> c = CHR 0x09 \<or> c = CHR 0x0A \<or> c = CHR 0x0B \<or> c = CHR 0x0C \<or> c = CHR 0x0D)"

text \<open>\<open>String.prototype.trim\<close>, on the ASCII white space.\<close>

definition trim :: "string \<Rightarrow> string" where
  "trim s = rev (dropWhile is_space (rev (dropWhile is_space s)))"

fun error_message :: "error \<Rightarrow> string" where
  "error_message (Error m) = m"
| "error_message (TypeError m) = m"

record chat_message =
  role :: string
  content :: string
  timestamp :: string

text \<open>The body of the backend's answer to \<open>/chat\<close>, as \<open>sendMessage\<close> reads it.\<close>

record chat_response =
  message :: string
  conversation_id :: jsval
  follow_up_questions :: "string list option"
  is_complete :: bool
  structured_data :: jsval

record chat_interface =
  messages :: "chat_message list"
  inputText :: string
  isLoading :: bool
  conversationId :: jsval
  followUpQuestions :: "string list"
  isComplete :: bool

text \<open>
  \<open>sendMessage\<close>. The props \<open>onDataUpdate\<close> and \<open>onComplete\<close> act on the parent's state;
  \<open>result\<close> is the outcome of \<open>ApiService.sendChatMessage\<close>, which either returns the
  response body or throws; the two time stamps are the clock's readings.
\<close>

definition sendMessage ::
  "(jsval \<Rightarrow> 'p \<Rightarrow> 'p) option \<Rightarrow> (jsval \<Rightarrow> 'p \<Rightarrow> 'p) option \<Rightarrow> string \<Rightarrow> string \<Rightarrow> string \<Rightarrow>
   error + chat_response \<Rightarrow> chat_interface \<Rightarrow> 'p \<Rightarrow> chat_interface \<times> 'p" where
  "sendMessage onDataUpdate onComplete msg t_user t_reply result chat parent =
     (if trim msg = [] \<or> isLoading chat then (chat, parent)
      else
        let userMessage = \<lparr>role = ''user'', content = msg, timestamp = t_user\<rparr>;
            chat1 = chat\<lparr>messages := messages chat @ [userMessage], inputText := [],
                         isLoading := True\<rparr>
        in case result of
             Inr response \<Rightarrow>
               (chat1\<lparr>messages := messages chat1 @
                         [\<lparr>role = ''assistant'', content = message response,
                           timestamp = t_reply\<rparr>],
                       conversationId := conversation_id response,
                       followUpQuestions :=
                         (case follow_up_questions response of Some qs \<Rightarrow> qs | None \<Rightarrow> []),
                       isComplete := is_complete response,
                       isLoading := False\<rparr>,
                let parent1 =
                      (case onDataUpdate of
                         Some f \<Rightarrow>
                           if truthy (structured_data response)
                           then f (structured_data response) parent else parent
                       | None \<Rightarrow> parent)
                in (case onComplete of
                      Some g \<Rightarrow>
                        if is_complete response
                        then g (structured_data response) parent1 else parent1
                    | None \<Rightarrow> parent1))
           | Inl e \<Rightarrow>
               (chat1\<lparr>messages := messages chat1 @
                         [\<lparr>role = ''assistant'',
                           content = ''Sorry, I encountered an error: '' @ error_message e @
                                     ''. Please try again.'',
                           timestamp = t_reply\<rparr>],
                       isLoading := False\<rparr>,
                parent))"

text \<open>The state of \<open>App\<close> that the form, the chat and the results view share.\<close>

record app =
  app_formData :: jsval
  apiResults :: jsval
  currentView :: string
  loading :: bool

definition setFormData :: "jsval \<Rightarrow> app \<Rightarrow> app" where
  "setFormData d a = a\<lparr>app_formData := d\<rparr>"

text \<open>\<open>handleChatComplete\<close> stores the data and raises an alert.\<close>

definition handleChatComplete :: "jsval \<Rightarrow> app \<Rightarrow> app" where
  "handleChatComplete completedData a = setFormData completedData a"

text \<open>
  A chat turn in \<open>App\<close>, which renders ChatInterface with \<open>onDataUpdate = setFormData\<close>
  and \<open>onComplete = handleChatComplete\<close>, and DynamicForm with \<open>initialData = formData\<close>.
\<close>

definition chat_turn ::
  "string \<Rightarrow> string \<Rightarrow> string \<Rightarrow> error + chat_response \<Rightarrow> chat_interface \<Rightarrow> app \<Rightarrow> chat_interface \<times> app" where
  "chat_turn = sendMessage (Some setFormData) (Some handleChatComplete)"

section \<open>ApiService\<close>

text \<open>
  The HTTP client. What the server and the network do with a request is a parameter
  (\<open>respond\<close>): either no response arrives (connection refused, time-out, DNS failure),
  or a response arrives with a status and a body. The client (axios with its default
  settings) resolves with the response on a 2xx status and rejects otherwise; a rejection
  carries the response when there is one, and a message. Every request made is appended
  to a log, so that the number of calls can be read off.
\<close>

datatype http_outcome = NoResponse string | Response int jsval

record axios_error =
  err_response :: "(int \<times> jsval) option"
  err_message :: string

type_synonym request = "string \<times> jsval"

definition axios_post ::
  "(request \<Rightarrow> http_outcome) \<Rightarrow> string \<Rightarrow> jsval \<Rightarrow> request list \<Rightarrow>
   (axios_error + jsval) \<times> request list" where
  "axios_post respond path body sent =
     ((case respond (path, body) of
         NoResponse m \<Rightarrow> Inl \<lparr>err_response = None, err_message = m\<rparr>
       | Response st d \<Rightarrow>
           if 200 \<le> st \<and> st < 300 then Inr d
           else Inl \<lparr>err_response = Some (st, d),
                     err_message = ''Request failed with status code '' @ dec (nat st)\<rparr>),
      sent @ [(path, body)])"

text \<open>
  \<open>error.response?.data?.detail || error.message\<close> inside a template literal. A detail
  that is a string is interpolated as it is; for any other truthy detail the text is the
  runtime's string conversion, the parameter \<open>text_of\<close>.
\<close>

definition diagnostic :: "(jsval \<Rightarrow> string) \<Rightarrow> axios_error \<Rightarrow> string" where
  "diagnostic text_of e =
     (let detail = (case err_response e of
                      None \<Rightarrow> Undefined
                    | Some (st, d) \<Rightarrow> opt_member d ''detail'')
      in if truthy detail
         then (case detail of Str s \<Rightarrow> s | d \<Rightarrow> text_of d)
         else err_message e)"

definition forwardToExternalApi ::
  "(jsval \<Rightarrow> string) \<Rightarrow> (request \<Rightarrow> http_outcome) \<Rightarrow> string \<Rightarrow> string \<Rightarrow> jsval \<Rightarrow> jsval \<Rightarrow>
   number \<Rightarrow> request list \<Rightarrow> (error + jsval) \<times> request list" where
  "forwardToExternalApi text_of respond apiUrl method payload headers timeout sent =
     (case axios_post respond ''/forward''
             (Obj [(''api_url'', Str apiUrl), (''method'', Str method), (''data'', payload),
                   (''headers'', headers), (''timeout'', Number timeout)]) sent of
        (Inr body, sent') \<Rightarrow> (Inr body, sent')
      | (Inl e, sent') \<Rightarrow>
          (Inl (Error (''Failed to forward to external API: '' @ diagnostic text_of e)), sent'))"

text \<open>
  \<open>handleFormSubmit\<close> of \<open>App\<close>, which is also what the retry button of the results view
  calls, with the current form data. The second component of the result is the request
  log, the third the alert raised, if any.
\<close>

definition handleFormSubmit ::
  "(jsval \<Rightarrow> string) \<Rightarrow> (request \<Rightarrow> http_outcome) \<Rightarrow> jsval \<Rightarrow> app \<Rightarrow> request list \<Rightarrow>
   app \<times> request list \<times> string option" where
  "handleFormSubmit text_of respond payload a sent =
     (case forwardToExternalApi text_of respond ''https://httpbin.org/post'' ''POST'' payload
             (Obj []) (Fin 30) sent of
        (Inr body, sent') \<Rightarrow>
          (a\<lparr>apiResults := body, currentView := ''results'', loading := False\<rparr>, sent', None)
      | (Inl e, sent') \<Rightarrow>
          (a\<lparr>loading := False\<rparr>, sent', Some (''Failed to submit form: '' @ error_message e)))"

definition onRetry ::
  "(jsval \<Rightarrow> string) \<Rightarrow> (request \<Rightarrow> http_outcome) \<Rightarrow> app \<Rightarrow> request list \<Rightarrow>
   app \<times> request list \<times> string option" where
  "onRetry text_of respond a sent = handleFormSubmit text_of respond (app_formData a) a sent"

text \<open>The request that a forwarding call sends: the path and the body.\<close>

definition forward_request :: "string \<Rightarrow> string \<Rightarrow> jsval \<Rightarrow> jsval \<Rightarrow> number \<Rightarrow> request" where
  "forward_request apiUrl method payload headers timeout =
     (''/forward'',
      Obj [(''api_url'', Str apiUrl), (''method'', Str method), (''data'', payload),
           (''headers'', headers), (''timeout'', Number timeout)])"

section \<open>Environment configuration\<close>

text \<open>Comparison of numbers: every comparison with NaN is false.\<close>

fun num_le :: "number \<Rightarrow> number \<Rightarrow> bool" where
  "num_le NaN b = False"
| "num_le a NaN = False"
| "num_le NegInf b = True"
| "num_le a PosInf = True"
| "num_le (Fin x) (Fin y) = (x \<le> y)"
| "num_le PosInf b = False"
| "num_le a NegInf = False"

definition num_less :: "number \<Rightarrow> number \<Rightarrow> bool" where
  "num_less a b = (num_le a b \<and> a \<noteq> b)"

text \<open>\<open>Math.min\<close> and \<open>Math.max\<close> of two numbers: NaN when an argument is NaN.\<close>

definition Math_min :: "number \<Rightarrow> number \<Rightarrow> number" where
  "Math_min a b = (if a = NaN \<or> b = NaN then NaN else if num_le a b then a else b)"

definition Math_max :: "number \<Rightarrow> number \<Rightarrow> number" where
  "Math_max a b = (if a = NaN \<or> b = NaN then NaN else if num_le a b then b else a)"

text \<open>\<open>x || d\<close> on numbers.\<close>

definition num_or :: "number \<Rightarrow> number \<Rightarrow> number" where
  "num_or x d = (if truthy (Number x) then x else d)"

text \<open>
  The process environment after the runtime's parsing: \<open>parseFloat\<close> and \<open>parseInt\<close>
  give a number, NaN for a variable that is unset or does not parse.
\<close>

record process_env =
  EXPO_PUBLIC_API_BASE_URL :: "string option"
  EXPO_PUBLIC_OPENAI_API_KEY :: "string option"
  EXPO_PUBLIC_DEFAULT_SPEECH_RATE :: number
  EXPO_PUBLIC_DEFAULT_SPEECH_PITCH :: number
  EXPO_PUBLIC_MAX_RECORDING_TIME :: number

record env =
  API_BASE_URL :: string
  OPENAI_API_KEY :: string
  DEFAULT_SPEECH_RATE :: number
  DEFAULT_SPEECH_PITCH :: number
  MAX_RECORDING_TIME :: number

definition str_or :: "string option \<Rightarrow> string \<Rightarrow> string" where
  "str_or x d = (case x of None \<Rightarrow> d | Some s \<Rightarrow> if s = [] then d else s)"

definition ENV :: "process_env \<Rightarrow> env" where
  "ENV p =
     \<lparr>API_BASE_URL = str_or (EXPO_PUBLIC_API_BASE_URL p) ''http://localhost:8000/api/v1'',
      OPENAI_API_KEY = str_or (EXPO_PUBLIC_OPENAI_API_KEY p) [],
      DEFAULT_SPEECH_RATE = num_or (EXPO_PUBLIC_DEFAULT_SPEECH_RATE p) (Fin 1.0),
      DEFAULT_SPEECH_PITCH = num_or (EXPO_PUBLIC_DEFAULT_SPEECH_PITCH p) (Fin 1.0),
      MAX_RECORDING_TIME = num_or (EXPO_PUBLIC_MAX_RECORDING_TIME p) (Fin 60000)\<rparr>"

text \<open>
  \<open>validateConfig\<close>, which runs when the configuration module is loaded: the list of
  errors it collects, and the throw when the list is not empty.
\<close>

definition config_errors :: "env \<Rightarrow> string list" where
  "config_errors e =
     (if API_BASE_URL e = [] then [''API_BASE_URL is required''] else []) @
     (if num_less (DEFAULT_SPEECH_RATE e) (Fin 0.1) \<or> num_less (Fin 2.0) (DEFAULT_SPEECH_RATE e)
      then [''DEFAULT_SPEECH_RATE must be between 0.1 and 2.0''] else []) @
     (if num_less (DEFAULT_SPEECH_PITCH e) (Fin 0.5) \<or> num_less (Fin 2.0) (DEFAULT_SPEECH_PITCH e)
      then [''DEFAULT_SPEECH_PITCH must be between 0.5 and 2.0''] else [])"

fun join :: "string \<Rightarrow> string list \<Rightarrow> string" where
  "join sep [] = []"
| "join sep [x] = x"
| "join sep (x # y # ys) = x @ sep @ join sep (y # ys)"

definition validateConfig :: "env \<Rightarrow> error + unit" where
  "validateConfig e =
     (if 0 < length (config_errors e)
      then Inl (Error (''Configuration errors: '' @ join '', '' (config_errors e)))
      else Inr ())"

section \<open>VoiceService\<close>

record voice_service =
  recording :: "unit option"
  isRecording :: bool
  isPlaying :: bool
  speechRate :: number
  speechPitch :: number

text \<open>The constructor reads the defaults of the configuration.\<close>

definition VoiceService :: "env \<Rightarrow> voice_service" where
  "VoiceService e =
     \<lparr>recording = None, isRecording = False, isPlaying = False,
      speechRate = DEFAULT_SPEECH_RATE e, speechPitch = DEFAULT_SPEECH_PITCH e\<rparr>"

subsection \<open>Speech settings\<close>

text \<open>
  The preferences kept in the asynchronous storage under the service's key, after the
  JSON round trip: a number that is not finite is written as \<open>null\<close>, which reads back
  falsy like NaN. A write or a read of the storage may fail; the failure is logged and
  nothing else happens.
\<close>

type_synonym storage = "(number \<times> number) option"

definition json_number :: "number \<Rightarrow> number" where
  "json_number n = (case n of Fin r \<Rightarrow> Fin r | _ \<Rightarrow> NaN)"

definition saveUserPreferences :: "bool \<Rightarrow> voice_service \<times> storage \<Rightarrow> voice_service \<times> storage" where
  "saveUserPreferences ok s =
     (if ok then (fst s, Some (json_number (speechRate (fst s)), json_number (speechPitch (fst s))))
      else s)"

definition loadUserPreferences :: "bool \<Rightarrow> voice_service \<times> storage \<Rightarrow> voice_service \<times> storage" where
  "loadUserPreferences ok s =
     (if ok
      then (case snd s of
              None \<Rightarrow> s
            | Some (r, p) \<Rightarrow>
                ((fst s)\<lparr>speechRate := num_or r (Fin 1.0), speechPitch := num_or p (Fin 1.0)\<rparr>,
                 snd s))
      else s)"

definition setSpeechRate :: "number \<Rightarrow> bool \<Rightarrow> voice_service \<times> storage \<Rightarrow> voice_service \<times> storage" where
  "setSpeechRate rate ok s =
     saveUserPreferences ok
       ((fst s)\<lparr>speechRate := Math_max (Fin 0.1) (Math_min (Fin 2.0) rate)\<rparr>, snd s)"

definition setSpeechPitch :: "number \<Rightarrow> bool \<Rightarrow> voice_service \<times> storage \<Rightarrow> voice_service \<times> storage" where
  "setSpeechPitch pitch ok s =
     saveUserPreferences ok
       ((fst s)\<lparr>speechPitch := Math_max (Fin 0.5) (Math_min (Fin 2.0) pitch)\<rparr>, snd s)"

text \<open>
  The states of the service and its storage that the application reaches when the
  arguments of \<open>setSpeechRate\<close> and \<open>setSpeechPitch\<close> are taken from \<open>A\<close>: the module is
  loaded, which needs a configuration that \<open>validateConfig\<close> accepts, over whatever an
  earlier run left in the storage; the preferences are loaded; a rate or a pitch is set.
  No other method of the service assigns the rate or the pitch.
\<close>

inductive reachable :: "(number \<Rightarrow> bool) \<Rightarrow> voice_service \<times> storage \<Rightarrow> bool"
  for A :: "number \<Rightarrow> bool" where
  first_run: "validateConfig (ENV p) = Inr () \<Longrightarrow> reachable A (VoiceService (ENV p), None)"
| restart: "reachable A s \<Longrightarrow> validateConfig (ENV p) = Inr () \<Longrightarrow>
            reachable A (VoiceService (ENV p), snd s)"
| load: "reachable A s \<Longrightarrow> reachable A (loadUserPreferences ok s)"
| set_rate: "reachable A s \<Longrightarrow> A rate \<Longrightarrow> reachable A (setSpeechRate rate ok s)"
| set_pitch: "reachable A s \<Longrightarrow> A pitch \<Longrightarrow> reachable A (setSpeechPitch pitch ok s)"

text \<open>The arguments that are numbers: every value of the number type except NaN.\<close>

definition a_number :: "number \<Rightarrow> bool" where
  "a_number x = (x \<noteq> NaN)"

text \<open>Every value of the number type, NaN among them.\<close>

definition any_argument :: "number \<Rightarrow> bool" where
  "any_argument x = True"

text \<open>A number in a closed interval; NaN and the infinities are in none.\<close>

definition between :: "real \<Rightarrow> real \<Rightarrow> number \<Rightarrow> bool" where
  "between lo hi n = (case n of Fin r \<Rightarrow> lo \<le> r \<and> r \<le> hi | _ \<Rightarrow> False)"

text \<open>The nearest point of the interval.\<close>

definition nearest :: "real \<Rightarrow> real \<Rightarrow> number \<Rightarrow> number" where
  "nearest lo hi n = (if num_less n (Fin lo) then Fin lo else if num_less (Fin hi) n then Fin hi else n)"

text \<open>
  The invariant of the speech settings: the rate and the pitch are in their intervals,
  and so is what the stored preferences would load.
\<close>

definition stored_ok :: "storage \<Rightarrow> bool" where
  "stored_ok st =
     (case st of
        None \<Rightarrow> True
      | Some (r, p) \<Rightarrow>
          between 0.1 2.0 (num_or r (Fin 1.0)) \<and> between 0.5 2.0 (num_or p (Fin 1.0)))"

definition settings_ok :: "voice_service \<times> storage \<Rightarrow> bool" where
  "settings_ok s =
     (between 0.1 2.0 (speechRate (fst s)) \<and> between 0.5 2.0 (speechPitch (fst s)) \<and>
      stored_ok (snd s))"

subsection \<open>Speech synthesis\<close>

text \<open>
  The calls that the service makes to the platform's speech engine are logged in order.
  \<open>Speak\<close> carries the text, the rate, the pitch, the language and the voice. Whether a
  call of the engine throws is a parameter.
\<close>

datatype engine_call = Stop | Speak string number number string "string option"

record speak_options =
  opt_rate :: "number option"
  opt_pitch :: "number option"
  opt_language :: "string option"
  opt_voice :: "string option"

text \<open>The call of \<open>Speech.speak\<close> that \<open>speak\<close> builds from its options and the settings.\<close>

definition speech_call :: "voice_service \<Rightarrow> string \<Rightarrow> speak_options \<Rightarrow> engine_call" where
  "speech_call vs text opts =
     Speak text
       (case opt_rate opts of None \<Rightarrow> speechRate vs | Some r \<Rightarrow> num_or r (speechRate vs))
       (case opt_pitch opts of None \<Rightarrow> speechPitch vs | Some p \<Rightarrow> num_or p (speechPitch vs))
       (str_or (opt_language opts) ''en-US'')
       (case opt_voice opts of None \<Rightarrow> None | Some v \<Rightarrow> if v = [] then None else Some v)"

text \<open>
  \<open>speak\<close>: nothing for an empty or blank text; \<open>Speech.stop()\<close> first when the flag
  \<open>isPlaying\<close> is set; then \<open>Speech.speak\<close>. A call that throws clears the flag and the
  error is thrown again.
\<close>

definition speak ::
  "error option \<Rightarrow> error option \<Rightarrow> string \<Rightarrow> speak_options \<Rightarrow> voice_service \<times> engine_call list \<Rightarrow>
   (error + unit) \<times> voice_service \<times> engine_call list" where
  "speak stop_error speak_error text opts s =
     (case s of (vs, calls) \<Rightarrow>
        if text = [] \<or> length (trim text) = 0 then (Inr (), vs, calls)
        else (case (if isPlaying vs then stop_error else None) of
                Some e \<Rightarrow> (Inl e, vs\<lparr>isPlaying := False\<rparr>, calls @ [Stop])
              | None \<Rightarrow>
                  (let calls1 = (if isPlaying vs then calls @ [Stop] else calls)
                   in case speak_error of
                        None \<Rightarrow> (Inr (), vs, calls1 @ [speech_call vs text opts])
                      | Some e \<Rightarrow>
                          (Inl e, vs\<lparr>isPlaying := False\<rparr>,
                           calls1 @ [speech_call vs text opts]))))"

text \<open>
  The callbacks that \<open>speak\<close> hands to the engine: \<open>onStart\<close> sets the flag; \<open>onDone\<close>,
  \<open>onStopped\<close> and \<open>onError\<close> clear it. Each then calls the caller's callback of the
  same name, if there is one, which is not modelled. The engine delivers them later, as
  events.
\<close>

definition onStart :: "voice_service \<Rightarrow> voice_service" where
  "onStart vs = vs\<lparr>isPlaying := True\<rparr>"

definition onDone :: "voice_service \<Rightarrow> voice_service" where
  "onDone vs = vs\<lparr>isPlaying := False\<rparr>"

definition onStopped :: "voice_service \<Rightarrow> voice_service" where
  "onStopped vs = vs\<lparr>isPlaying := False\<rparr>"

definition onError :: "voice_service \<Rightarrow> voice_service" where
  "onError vs = vs\<lparr>isPlaying := False\<rparr>"

text \<open>
  A run of the service: calls of \<open>speak\<close> (with the engine's calls succeeding) and
  deliveries of callbacks, in the order in which they happen.
\<close>

datatype speech_event =
  SpeakCalled string speak_options | StartDelivered | DoneDelivered | StoppedDelivered
  | ErrorDelivered

fun speech_step :: "speech_event \<Rightarrow> voice_service \<times> engine_call list \<Rightarrow> voice_service \<times> engine_call list" where
  "speech_step (SpeakCalled text opts) s = snd (speak None None text opts s)"
| "speech_step StartDelivered (vs, calls) = (onStart vs, calls)"
| "speech_step DoneDelivered (vs, calls) = (onDone vs, calls)"
| "speech_step StoppedDelivered (vs, calls) = (onStopped vs, calls)"
| "speech_step ErrorDelivered (vs, calls) = (onError vs, calls)"

fun speech_run :: "speech_event list \<Rightarrow> voice_service \<times> engine_call list \<Rightarrow> voice_service \<times> engine_call list" where
  "speech_run [] s = s"
| "speech_run (e # es) s = speech_run es (speech_step e s)"

subsection \<open>Recording\<close>



subsection \<open>Transcription\<close>

text \<open>
  The file system holds the recorded files; every call of \<open>deleteAsync\<close> is logged. The
  outcomes of the calls that leave the program are parameters: the error of reading the
  file, if any; the outcome of the request to the transcription service (a network
  failure, or a status, a status text and the outcome of reading the body); the error of
  each deletion, by the number of deletions made before it. \<open>api_key\<close> is the
  configuration's \<open>OPENAI_API_KEY\<close>.
\<close>

record file_system =
  files :: "string set"
  delete_calls :: "string list"

datatype fetch_outcome = FetchFailed error | FetchResponse int string "error + string"

record transcribe_env =
  read_error :: "error option"
  api_key :: string
  fetched :: fetch_outcome
  delete_error :: "nat \<Rightarrow> error option"

definition deleteAsync :: "transcribe_env \<Rightarrow> string \<Rightarrow> file_system \<Rightarrow> (error + unit) \<times> file_system" where
  "deleteAsync t uri fs =
     (case delete_error t (length (delete_calls fs)) of
        None \<Rightarrow> (Inr (), fs\<lparr>files := files fs - {uri}, delete_calls := delete_calls fs @ [uri]\<rparr>)
      | Some e \<Rightarrow> (Inl e, fs\<lparr>delete_calls := delete_calls fs @ [uri]\<rparr>))"

text \<open>
  The \<open>try\<close> block of \<open>transcribeAudio\<close>. The URI is falsy when it is null or undefined
  (\<open>None\<close>) or the empty string.
\<close>

definition transcribe_try ::
  "transcribe_env \<Rightarrow> string option \<Rightarrow> file_system \<Rightarrow> (error + string) \<times> file_system" where
  "transcribe_try t audioUri fs =
     (case audioUri of
        None \<Rightarrow> (Inl (Error ''No audio URI provided''), fs)
      | Some uri \<Rightarrow>
          if uri = [] then (Inl (Error ''No audio URI provided''), fs)
          else (case read_error t of
                  Some e \<Rightarrow> (Inl e, fs)
                | None \<Rightarrow>
                    if api_key t = []
                    then (Inl (Error ''OpenAI API key not configured. Please set EXPO_PUBLIC_OPENAI_API_KEY in your environment.''), fs)
                    else (case fetched t of
                            FetchFailed e \<Rightarrow> (Inl e, fs)
                          | FetchResponse st statusText body \<Rightarrow>
                              if \<not> (200 \<le> st \<and> st < 300)
                              then (Inl (Error (''Transcription failed: '' @ dec (nat st) @ '' '' @
                                                statusText)), fs)
                              else (case body of
                                      Inl e \<Rightarrow> (Inl e, fs)
                                    | Inr transcription \<Rightarrow>
                                        (case deleteAsync t uri fs of
                                           (Inl e, fs') \<Rightarrow> (Inl e, fs')
                                         | (Inr u, fs') \<Rightarrow> (Inr (trim transcription), fs'))))))"

text \<open>
  \<open>transcribeAudio\<close>: the \<open>try\<close> block, and the \<open>catch\<close> block, which deletes the file
  when a URI was given, swallows a failure of that deletion and throws the error again.
\<close>

definition transcribeAudio ::
  "transcribe_env \<Rightarrow> string option \<Rightarrow> file_system \<Rightarrow> (error + string) \<times> file_system" where
  "transcribeAudio t audioUri fs =
     (case transcribe_try t audioUri fs of
        (Inr transcription, fs') \<Rightarrow> (Inr transcription, fs')
      | (Inl e, fs') \<Rightarrow>
          (case audioUri of
             None \<Rightarrow> (Inl e, fs')
           | Some uri \<Rightarrow>
               if uri = [] then (Inl e, fs') else (Inl e, snd (deleteAsync t uri fs'))))"

text \<open>
  The \<open>try\<close> block reaches its own deletion (the file was read, the key is configured,
  the service answered with a 2xx status and the body was read) and that deletion throws.
\<close>

definition success_delete_throws :: "transcribe_env \<Rightarrow> file_system \<Rightarrow> bool" where
  "success_delete_throws t fs =
     (read_error t = None \<and> api_key t \<noteq> [] \<and>
      (case fetched t of
         FetchFailed e \<Rightarrow> False
       | FetchResponse st statusText body \<Rightarrow>
           200 \<le> st \<and> st < 300 \<and> (case body of Inl e \<Rightarrow> False | Inr transcription \<Rightarrow> True)) \<and>
      delete_error t (length (delete_calls fs)) \<noteq> None)"

section \<open>VoiceButton\<close>


















section \<open>Properties of the form\<close>

lemma map_of_obj_set: "map_of (obj_set k v kvs) = (map_of kvs)(k \<mapsto> v)"
  by (induction kvs) auto

lemma opt_member_obj_set: "opt_member (Obj (obj_set k v kvs)) k = v"
  by (simp add: opt_member_def nullish_def map_of_obj_set)

lemma field_change_rebuilt:
  "field_change onChange name val ks v = onChange name (rebuilt val ks v)"
proof (induction ks arbitrary: onChange name val)
  case Nil
  show ?case by simp
next
  case (Cons k ks)
  show ?case by (simp add: Cons.IH nested_onChange_def)
qed

lemma read_below_rebuilt: "read_below (rebuilt val ks v) ks = v"
  by (induction ks arbitrary: val) (simp_all add: opt_member_obj_set)

text \<open>
  C4. Writing a value at a path of the form, top-level or nested, and reading the same
  path at once gives back exactly the written value, whatever the value is (a scalar, a
  boolean, an object). The write goes through whenever the form data is not null or
  undefined, the only case in which the render's \<open>formData[p]\<close> throws.
\<close>

theorem setField_then_read:
  assumes "\<not> nullish (formData st)"
  shows "\<exists>st'. setField p ps v st = Inr st' \<and> read_field (formData st') p ps = Inr v"
proof -
  from assms have m: "member (formData st) p = Inr (read_prop (formData st) p)"
    by (simp add: member_def)
  let ?st' = "handleFieldChange p (rebuilt (read_prop (formData st) p) ps v) st"
  have w: "setField p ps v st = Inr ?st'"
    by (simp add: setField_def m field_change_rebuilt)
  have "member (formData ?st') p = Inr (rebuilt (read_prop (formData st) p) ps v)"
    by (simp add: handleFieldChange_def member_def nullish_def map_of_obj_set)
  then have "read_field (formData ?st') p ps = Inr v"
    by (simp add: read_field_def read_below_rebuilt)
  with w show ?thesis by blast
qed

theorem setField_then_read_witness:
  "\<not> nullish (formData \<lparr>formData = Obj [(''name'', Str ''Ann'')], validationErrors = []\<rparr>) \<and>
   (\<exists>st'. setField ''address'' [''geo'', ''verified''] (Bool False)
            \<lparr>formData = Obj [(''name'', Str ''Ann'')], validationErrors = []\<rparr> = Inr st' \<and>
          read_field (formData st') ''address'' [''geo'', ''verified''] = Inr (Bool False))"
proof -
  have h: "\<not> nullish (formData \<lparr>formData = Obj [(''name'', Str ''Ann'')], validationErrors = []\<rparr>)"
    by (simp add: nullish_def)
  show ?thesis
    using h setField_then_read [OF h, of "''address''" "[''geo'', ''verified'']" "Bool False"]
    by blast
qed

subsection \<open>Validation\<close>

text \<open>
  On form data that is not null or undefined the loop of \<open>validateForm\<close> never throws,
  and its \<open>errors\<close> object holds, beside what it held before, the message of every
  required field of the list whose value is falsy.
\<close>

lemma validate_fields_total:
  assumes "\<not> nullish fd"
  shows "\<exists>errs'. validate_fields fd fs errs = Inr errs' \<and>
           (\<forall>k. map_of errs' k =
              (if \<exists>f\<in>set fs. fname f = k \<and> required f \<and> \<not> truthy (read_prop fd k)
               then Some (Str (k @ '' is required'')) else map_of errs k))"
proof (induction fs arbitrary: errs)
  case Nil
  show ?case by simp
next
  case (Cons f fs)
  from assms have m: "member fd (fname f) = Inr (read_prop fd (fname f))"
    by (simp add: member_def)
  show ?case
  proof (cases "required f \<and> \<not> truthy (read_prop fd (fname f))")
    case True
    from Cons.IH [of "obj_set (fname f) (Str (fname f @ '' is required'')) errs"]
    obtain errs' where
      e: "validate_fields fd fs (obj_set (fname f) (Str (fname f @ '' is required'')) errs) = Inr errs'"
      and k: "\<And>k. map_of errs' k =
              (if \<exists>f\<in>set fs. fname f = k \<and> required f \<and> \<not> truthy (read_prop fd k)
               then Some (Str (k @ '' is required''))
               else map_of (obj_set (fname f) (Str (fname f @ '' is required'')) errs) k)"
      by blast
    from True e have "validate_fields fd (f # fs) errs = Inr errs'"
      by (simp add: m)
    moreover have "\<forall>k. map_of errs' k =
              (if \<exists>g\<in>set (f # fs). fname g = k \<and> required g \<and> \<not> truthy (read_prop fd k)
               then Some (Str (k @ '' is required'')) else map_of errs k)"
      using True by (auto simp: k map_of_obj_set)
    ultimately show ?thesis by blast
  next
    case False
    from Cons.IH [of errs]
    obtain errs' where e: "validate_fields fd fs errs = Inr errs'"
      and k: "\<And>k. map_of errs' k =
              (if \<exists>f\<in>set fs. fname f = k \<and> required f \<and> \<not> truthy (read_prop fd k)
               then Some (Str (k @ '' is required''))
               else map_of errs k)"
      by blast
    from False have nt:
      "required f \<Longrightarrow> truthy (read_prop fd (fname f)) \<and> read_prop fd (fname f) \<noteq> Str ''''"
      by auto
    from False e have "validate_fields fd (f # fs) errs = Inr errs'"
      using nt by (cases "required f") (simp_all add: m)
    moreover have "\<forall>k. map_of errs' k =
              (if \<exists>g\<in>set (f # fs). fname g = k \<and> required g \<and> \<not> truthy (read_prop fd k)
               then Some (Str (k @ '' is required'')) else map_of errs k)"
      using False by (auto simp: k)
    ultimately show ?thesis by blast
  qed
qed

text \<open>
  C2, as the code has it. \<open>validateForm\<close> looks at the top-level fields of the schema
  only and never descends into the children of a nested field. On form data that is an
  object it returns true exactly when it records no error; every error is recorded under
  the name of a required top-level field; a required top-level field with nothing stored
  under its name is recorded, unless the name is one that every object inherits; and a
  field that holds a truthy value, such as a non-empty text, is not recorded. For a schema
  with one required top-level text field (of a name that is not inherited) and an empty
  form it records exactly that field, and after a non-empty text has been written at that
  field it records nothing and returns true.
\<close>

theorem validateForm_top_level:
  assumes "formData st = Obj kvs" and "schema_fields sch = Some fs"
  shows "(\<exists>errors.
            validateForm sch st = Inr (st\<lparr>validationErrors := errors\<rparr>, errors = []) \<and>
            fst ` set errors \<subseteq> {fname f | f. f \<in> set fs \<and> required f} \<and>
            (\<forall>f\<in>set fs. required f \<longrightarrow> map_of kvs (fname f) = None \<longrightarrow>
               fname f \<notin> set object_prototype \<longrightarrow> fname f \<in> fst ` set errors) \<and>
            (\<forall>f\<in>set fs. \<forall>v. map_of kvs (fname f) = Some v \<longrightarrow> truthy v \<longrightarrow>
               fname f \<notin> fst ` set errors)) \<and>
         (n \<notin> set object_prototype \<longrightarrow>
            validateForm (Schema m (Some [Field n ''string'' True None None]))
                \<lparr>formData = Obj [], validationErrors = ve\<rparr> =
              Inr (\<lparr>formData = Obj [], validationErrors = [(n, Str (n @ '' is required''))]\<rparr>,
                   False)) \<and>
         (s \<noteq> [] \<longrightarrow>
           (\<exists>st1 st2. setField n [] (Str s) \<lparr>formData = Obj [], validationErrors = ve\<rparr> = Inr st1 \<and>
              validateForm (Schema m (Some [Field n ''string'' True None None])) st1 = Inr (st2, True)))"
proof -
  from assms(1) have nn: "\<not> nullish (formData st)"
    by (simp add: nullish_def)
  from validate_fields_total [OF nn, of fs "[]"]
  obtain errs where e: "validate_fields (formData st) fs [] = Inr errs"
    and k: "\<And>k. map_of errs k =
              (if \<exists>f\<in>set fs. fname f = k \<and> required f \<and> \<not> truthy (read_prop (formData st) k)
               then Some (Str (k @ '' is required'')) else map_of [] k)"
    by blast
  have dom: "fst ` set errs = dom (map_of errs)"
    by (simp add: dom_map_of_conv_image_fst)
  have keys: "\<And>x. (x \<in> fst ` set errs) =
      (\<exists>f\<in>set fs. fname f = x \<and> required f \<and> \<not> truthy (read_prop (Obj kvs) x))"
    unfolding dom using assms(1) by (auto simp: dom_def k split: if_splits)
  have v: "validateForm sch st = Inr (st\<lparr>validationErrors := errs\<rparr>, errs = [])"
    using e by (simp add: validateForm_def assms(2))
  have sub: "fst ` set errs \<subseteq> {fname f | f. f \<in> set fs \<and> required f}"
  proof (rule subsetI)
    fix x
    assume "x \<in> fst ` set errs"
    then obtain f where "f \<in> set fs" and "fname f = x" and "required f"
      using keys by blast
    then show "x \<in> {fname f | f. f \<in> set fs \<and> required f}"
      by blast
  qed
  have absent: "\<forall>f\<in>set fs. required f \<longrightarrow> map_of kvs (fname f) = None \<longrightarrow>
               fname f \<notin> set object_prototype \<longrightarrow> fname f \<in> fst ` set errs"
    by (auto simp: keys inherited_def)
  have present: "\<forall>f\<in>set fs. \<forall>v. map_of kvs (fname f) = Some v \<longrightarrow> truthy v \<longrightarrow>
               fname f \<notin> fst ` set errs"
    by (auto simp: keys)
  from v sub absent present
  have a: "\<exists>errors.
            validateForm sch st = Inr (st\<lparr>validationErrors := errors\<rparr>, errors = []) \<and>
            fst ` set errors \<subseteq> {fname f | f. f \<in> set fs \<and> required f} \<and>
            (\<forall>f\<in>set fs. required f \<longrightarrow> map_of kvs (fname f) = None \<longrightarrow>
               fname f \<notin> set object_prototype \<longrightarrow> fname f \<in> fst ` set errors) \<and>
            (\<forall>f\<in>set fs. \<forall>v. map_of kvs (fname f) = Some v \<longrightarrow> truthy v \<longrightarrow>
               fname f \<notin> fst ` set errors)"
    by blast
  have b: "n \<notin> set object_prototype \<longrightarrow>
            validateForm (Schema m (Some [Field n ''string'' True None None]))
                \<lparr>formData = Obj [], validationErrors = ve\<rparr> =
              Inr (\<lparr>formData = Obj [], validationErrors = [(n, Str (n @ '' is required''))]\<rparr>,
                   False)"
    by (simp add: validateForm_def member_def nullish_def inherited_def)
  have c: "s \<noteq> [] \<longrightarrow>
           (\<exists>st1 st2. setField n [] (Str s) \<lparr>formData = Obj [], validationErrors = ve\<rparr> = Inr st1 \<and>
              validateForm (Schema m (Some [Field n ''string'' True None None])) st1 = Inr (st2, True))"
    by (simp add: setField_def validateForm_def member_def nullish_def handleFieldChange_def)
  from a b c show ?thesis by blast
qed

theorem validateForm_top_level_witness:
  "\<exists>errors.
     validateForm
       (Schema None (Some [Field ''name'' ''string'' True None None,
                           Field ''age'' ''integer'' True None None]))
       \<lparr>formData = Obj [(''name'', Str ''Ann'')], validationErrors = []\<rparr> =
     Inr (\<lparr>formData = Obj [(''name'', Str ''Ann'')], validationErrors = errors\<rparr>, errors = []) \<and>
     ''age'' \<in> fst ` set errors \<and> ''name'' \<notin> fst ` set errors"
proof -
  have h: "formData \<lparr>formData = Obj [(''name'', Str ''Ann'')], validationErrors = []\<rparr> =
           Obj [(''name'', Str ''Ann'')]"
    by simp
  have f: "schema_fields (Schema None (Some [Field ''name'' ''string'' True None None,
                           Field ''age'' ''integer'' True None None])) =
           Some [Field ''name'' ''string'' True None None, Field ''age'' ''integer'' True None None]"
    by simp
  have p: "''age'' \<notin> set object_prototype"
    by (simp add: object_prototype_def)
  from validateForm_top_level [OF h f, where n = "''x''" and s = "''y''" and m = None and ve = "[]"] p
  show ?thesis
    by auto
qed

text \<open>
  Two inputs at which the code and the specification's \<open>validate\<close> part. An optional
  nested field that is present, with a required child that is missing: the specification
  asks for the child's path, \<open>validateForm\<close> records nothing and returns true. A required
  field named \<open>toString\<close> on an empty form: the specification asks for its path, but the
  read finds the function that every object inherits, and \<open>validateForm\<close> returns true.
\<close>

theorem validateForm_ignores_nested_counterexample:
  "validateForm
     (Schema None (Some [Field ''address'' ''object'' False None
        (Some (Schema None (Some [Field ''street'' ''string'' True None None])))]))
     \<lparr>formData = Obj [(''address'', Obj [])], validationErrors = []\<rparr> =
   Inr (\<lparr>formData = Obj [(''address'', Obj [])], validationErrors = []\<rparr>, True) \<and>
   spec_validate_fields [] [(''address'', Obj [])]
     [Field ''address'' ''object'' False None
        (Some (Schema None (Some [Field ''street'' ''string'' True None None])))] =
   [[''address'', ''street'']] \<and>
   validateForm (Schema None (Some [Field ''toString'' ''string'' True None None]))
     \<lparr>formData = Obj [], validationErrors = []\<rparr> =
   Inr (\<lparr>formData = Obj [], validationErrors = []\<rparr>, True) \<and>
   spec_validate_fields [] [] [Field ''toString'' ''string'' True None None] = [[''toString'']]"
  by (simp add: validateForm_def member_def nullish_def inherited_def object_prototype_def)



section \<open>Properties of the chat path\<close>

text \<open>
  C1, as the code has it. A chat turn whose response carries structured data replaces
  the form data: afterwards the data of \<open>App\<close>, and with it the data of the form, is the
  response's data, whatever was there before. Sibling keys are kept by the form path
  only: a single-field write reads back the written value at its key and the old value
  at every other key.
\<close>

theorem chat_update_replaces:
  assumes "trim msg \<noteq> []" and "\<not> isLoading chat" and "truthy (structured_data response)"
  shows "app_formData (snd (chat_turn msg t1 t2 (Inr response) chat a)) = structured_data response \<and>
         formData (initialData_effect
             (app_formData (snd (chat_turn msg t1 t2 (Inr response) chat a))) form)
           = structured_data response \<and>
         read_prop (formData (handleFieldChange k v \<lparr>formData = Obj kvs, validationErrors = ve\<rparr>)) k' =
           (if k' = k then v else read_prop (Obj kvs) k')"
  using assms
  by (simp add: chat_turn_def sendMessage_def setFormData_def handleChatComplete_def Let_def
      initialData_effect_def handleFieldChange_def map_of_obj_set)

theorem chat_update_replaces_witness:
  "app_formData (snd (chat_turn ''set b to 3'' ''t1'' ''t2''
      (Inr \<lparr>message = ''Done'', conversation_id = Str ''c1'', follow_up_questions = None,
            is_complete = False, structured_data = Obj [(''b'', Number (Fin 3))]\<rparr>)
      \<lparr>messages = [], inputText = ''set b to 3'', isLoading = False, conversationId = Null,
        followUpQuestions = [], isComplete = False\<rparr>
      \<lparr>app_formData = Obj [(''a'', Number (Fin 1)), (''b'', Number (Fin 2))],
        apiResults = Null, currentView = ''chat'', loading = False\<rparr>))
   = Obj [(''b'', Number (Fin 3))] \<and>
   formData (handleFieldChange ''b'' (Number (Fin 3))
      \<lparr>formData = Obj [(''a'', Number (Fin 1)), (''b'', Number (Fin 2))], validationErrors = []\<rparr>)
   = Obj [(''a'', Number (Fin 1)), (''b'', Number (Fin 3))]"
proof -
  have t: "trim ''set b to 3'' \<noteq> []"
    by (simp add: trim_def is_space_def)
  have l: "\<not> isLoading \<lparr>messages = [], inputText = ''set b to 3'', isLoading = False,
        conversationId = Null, followUpQuestions = [], isComplete = False\<rparr>"
    by simp
  have d: "truthy (structured_data \<lparr>message = ''Done'', conversation_id = Str ''c1'',
        follow_up_questions = None, is_complete = False,
        structured_data = Obj [(''b'', Number (Fin 3))]\<rparr>)"
    by simp
  have w: "formData (handleFieldChange ''b'' (Number (Fin 3))
      \<lparr>formData = Obj [(''a'', Number (Fin 1)), (''b'', Number (Fin 2))], validationErrors = []\<rparr>)
   = Obj [(''a'', Number (Fin 1)), (''b'', Number (Fin 3))]"
    by (simp add: handleFieldChange_def)
  from chat_update_replaces [OF t l d, of "''t1''" "''t2''"] w show ?thesis
    by simp
qed

text \<open>
  The specification's example on the chat path: the form data \<open>{a: 1, b: 2}\<close> and the
  update \<open>{b: 3}\<close> leave \<open>{b: 3}\<close>; the key \<open>a\<close> is gone.
\<close>

theorem chat_update_erases_siblings_counterexample:
  "app_formData (snd (chat_turn ''set b to 3'' ''t1'' ''t2''
      (Inr \<lparr>message = ''Done'', conversation_id = Str ''c1'', follow_up_questions = None,
            is_complete = False, structured_data = Obj [(''b'', Number (Fin 3))]\<rparr>)
      \<lparr>messages = [], inputText = ''set b to 3'', isLoading = False, conversationId = Null,
        followUpQuestions = [], isComplete = False\<rparr>
      \<lparr>app_formData = Obj [(''a'', Number (Fin 1)), (''b'', Number (Fin 2))],
        apiResults = Null, currentView = ''chat'', loading = False\<rparr>))
   \<noteq> Obj [(''a'', Number (Fin 1)), (''b'', Number (Fin 3))] \<and>
   read_prop (app_formData (snd (chat_turn ''set b to 3'' ''t1'' ''t2''
      (Inr \<lparr>message = ''Done'', conversation_id = Str ''c1'', follow_up_questions = None,
            is_complete = False, structured_data = Obj [(''b'', Number (Fin 3))]\<rparr>)
      \<lparr>messages = [], inputText = ''set b to 3'', isLoading = False, conversationId = Null,
        followUpQuestions = [], isComplete = False\<rparr>
      \<lparr>app_formData = Obj [(''a'', Number (Fin 1)), (''b'', Number (Fin 2))],
        apiResults = Null, currentView = ''chat'', loading = False\<rparr>))) ''a'' = Undefined"
  by (simp add: chat_turn_def sendMessage_def trim_def is_space_def setFormData_def Let_def
      inherited_def object_prototype_def)

section \<open>Properties of the forwarding call\<close>

text \<open>
  C3, as the code has it. \<open>forwardToExternalApi\<close> builds no result envelope of its own.
  When the request to \<open>/forward\<close> is rejected, because no response arrived or because the
  status is not 2xx, it throws an Error whose message is "Failed to forward to external
  API: " followed by the detail of the response, or by the client's message when there is
  no detail. When the request resolves it returns the body of the response unchanged.
\<close>

theorem forwardToExternalApi_outcome:
  "fst (forwardToExternalApi text_of respond apiUrl method payload headers timeout sent) =
     (case respond (forward_request apiUrl method payload headers timeout) of
        NoResponse m \<Rightarrow> Inl (Error (''Failed to forward to external API: '' @ m))
      | Response st body \<Rightarrow>
          if 200 \<le> st \<and> st < 300 then Inr body
          else Inl (Error (''Failed to forward to external API: '' @
                 diagnostic text_of \<lparr>err_response = Some (st, body),
                   err_message = ''Request failed with status code '' @ dec (nat st)\<rparr>)))"
  by (auto simp: forwardToExternalApi_def axios_post_def forward_request_def diagnostic_def
      split: http_outcome.splits)

theorem forwardToExternalApi_outcome_witness:
  "fst (forwardToExternalApi (\<lambda>v. ''[object Object]'')
      (\<lambda>r. Response 502 (Obj [(''detail'', Str ''Bad Gateway'')]))
      ''https://httpbin.org/post'' ''POST'' (Obj [(''name'', Str ''Ann'')]) (Obj []) (Fin 30) []) =
   Inl (Error ''Failed to forward to external API: Bad Gateway'') \<and>
   fst (forwardToExternalApi (\<lambda>v. ''[object Object]'')
      (\<lambda>r. Response 200 (Obj [(''status_code'', Number (Fin 404)), (''success'', Bool False)]))
      ''https://httpbin.org/post'' ''POST'' (Obj [(''name'', Str ''Ann'')]) (Obj []) (Fin 30) []) =
   Inr (Obj [(''status_code'', Number (Fin 404)), (''success'', Bool False)])"
  using
    forwardToExternalApi_outcome [of "\<lambda>v. ''[object Object]''"
      "\<lambda>r. Response 502 (Obj [(''detail'', Str ''Bad Gateway'')])"
      "''https://httpbin.org/post''" "''POST''" "Obj [(''name'', Str ''Ann'')]" "Obj []" "Fin 30" "[]"]
    forwardToExternalApi_outcome [of "\<lambda>v. ''[object Object]''"
      "\<lambda>r. Response 200 (Obj [(''status_code'', Number (Fin 404)), (''success'', Bool False)])"
      "''https://httpbin.org/post''" "''POST''" "Obj [(''name'', Str ''Ann'')]" "Obj []" "Fin 30" "[]"]
  by (simp add: diagnostic_def opt_member_def nullish_def)

text \<open>
  A connection that is refused: the call throws, where the specification asks for an
  envelope with \<open>success = false\<close> and the sentinel status.
\<close>

theorem forwardToExternalApi_throws_counterexample:
  "fst (forwardToExternalApi (\<lambda>v. ''[object Object]'') (\<lambda>r. NoResponse ''Network Error'')
      ''https://httpbin.org/post'' ''POST'' (Obj [(''name'', Str ''Ann'')]) (Obj []) (Fin 30) []) =
   Inl (Error ''Failed to forward to external API: Network Error'')"
  by (simp add: forwardToExternalApi_def axios_post_def diagnostic_def)

text \<open>The request log after a forwarding call and after a submission.\<close>

lemma axios_post_sent: "snd (axios_post respond path body sent) = sent @ [(path, body)]"
  by (simp add: axios_post_def)

lemma forward_sent:
  "snd (forwardToExternalApi text_of respond apiUrl method payload headers timeout sent) =
     sent @ [forward_request apiUrl method payload headers timeout]"
proof -
  obtain r s where p: "axios_post respond ''/forward''
             (Obj [(''api_url'', Str apiUrl), (''method'', Str method), (''data'', payload),
                   (''headers'', headers), (''timeout'', Number timeout)]) sent = (r, s)"
    by (cases "axios_post respond ''/forward''
             (Obj [(''api_url'', Str apiUrl), (''method'', Str method), (''data'', payload),
                   (''headers'', headers), (''timeout'', Number timeout)]) sent")
  from p have "s = snd (axios_post respond ''/forward''
             (Obj [(''api_url'', Str apiUrl), (''method'', Str method), (''data'', payload),
                   (''headers'', headers), (''timeout'', Number timeout)]) sent)"
    by simp
  then have "s = sent @ [forward_request apiUrl method payload headers timeout]"
    by (simp only: axios_post_sent forward_request_def)
  with p show ?thesis
    by (cases r) (simp_all add: forwardToExternalApi_def)
qed

lemma submit_sent:
  "fst (snd (handleFormSubmit text_of respond payload a sent)) =
     sent @ [forward_request ''https://httpbin.org/post'' ''POST'' payload (Obj []) (Fin 30)]"
proof -
  obtain r s where p: "forwardToExternalApi text_of respond ''https://httpbin.org/post'' ''POST'' payload
             (Obj []) (Fin 30) sent = (r, s)"
    by (cases "forwardToExternalApi text_of respond ''https://httpbin.org/post'' ''POST'' payload
             (Obj []) (Fin 30) sent")
  then have "s = snd (forwardToExternalApi text_of respond ''https://httpbin.org/post'' ''POST'' payload
             (Obj []) (Fin 30) sent)"
    by simp
  then have "s = sent @ [forward_request ''https://httpbin.org/post'' ''POST'' payload (Obj []) (Fin 30)]"
    by (simp only: forward_sent)
  with p show ?thesis
    by (cases r) (simp_all add: handleFormSubmit_def)
qed

lemma submit_formData:
  "app_formData (fst (handleFormSubmit text_of respond payload a sent)) = app_formData a"
proof -
  obtain r s where p: "forwardToExternalApi text_of respond ''https://httpbin.org/post'' ''POST'' payload
             (Obj []) (Fin 30) sent = (r, s)"
    by (cases "forwardToExternalApi text_of respond ''https://httpbin.org/post'' ''POST'' payload
             (Obj []) (Fin 30) sent")
  then show ?thesis
    by (cases r) (simp_all add: handleFormSubmit_def)
qed

text \<open>
  C5. One invocation of the forwarding call makes exactly one request, whether it is
  answered or fails: the log grows by the one request to \<open>/forward\<close>. A form submission
  makes one forwarding call. A retry is a fresh submission with the current form data: it
  makes one more request, the same as the first, whatever the first outcome was.
\<close>

theorem forwardToExternalApi_one_call:
  "snd (forwardToExternalApi text_of respond apiUrl method payload headers timeout sent) =
     sent @ [forward_request apiUrl method payload headers timeout] \<and>
   fst (snd (handleFormSubmit text_of respond payload a sent)) =
     sent @ [forward_request ''https://httpbin.org/post'' ''POST'' payload (Obj []) (Fin 30)] \<and>
   fst (snd (onRetry text_of respond'
               (fst (handleFormSubmit text_of respond (app_formData a) a sent))
               (fst (snd (handleFormSubmit text_of respond (app_formData a) a sent))))) =
     sent @ [forward_request ''https://httpbin.org/post'' ''POST'' (app_formData a) (Obj []) (Fin 30),
             forward_request ''https://httpbin.org/post'' ''POST'' (app_formData a) (Obj []) (Fin 30)]"
  by (simp add: forward_sent submit_sent submit_formData onRetry_def)

theorem forwardToExternalApi_one_call_witness:
  "length (snd (forwardToExternalApi (\<lambda>v. ''[object Object]'') (\<lambda>r. NoResponse ''timeout'')
      ''https://httpbin.org/post'' ''POST'' (Obj [(''name'', Str ''Ann'')]) (Obj []) (Fin 30) [])) = 1"
  using forwardToExternalApi_one_call [of "\<lambda>v. ''[object Object]''" "\<lambda>r. NoResponse ''timeout''"
      "''https://httpbin.org/post''" "''POST''" "Obj [(''name'', Str ''Ann'')]" "Obj []" "Fin 30" "[]"]
  by simp

section \<open>Properties of the voice service\<close>

subsection \<open>Transcription and the temporary file\<close>

text \<open>
  C6, as the code has it. On every exit path of \<open>transcribeAudio\<close> with a URI given,
  the deletion of the recorded file is attempted: \<open>deleteAsync\<close> is called on the URI
  twice when the deletion on the success path itself throws, and once on every other
  path. The file is gone afterwards whenever the last deletion attempted succeeds.
\<close>

theorem transcribeAudio_deletes:
  assumes "uri \<noteq> []"
  shows "delete_calls (snd (transcribeAudio t (Some uri) fs)) =
           delete_calls fs @ (if success_delete_throws t fs then [uri, uri] else [uri]) \<and>
         (delete_error t (length (delete_calls (snd (transcribeAudio t (Some uri) fs))) - 1) = None
            \<longrightarrow> uri \<notin> files (snd (transcribeAudio t (Some uri) fs)))"
  using assms
  by (auto simp: transcribeAudio_def transcribe_try_def deleteAsync_def success_delete_throws_def
      split: option.splits fetch_outcome.splits sum.splits prod.splits)

theorem transcribeAudio_deletes_witness:
  "''file:///rec.m4a'' \<noteq> [] \<and>
   ''file:///rec.m4a'' \<notin> files (snd (transcribeAudio
      \<lparr>read_error = None, api_key = ''sk-test'',
        fetched = FetchResponse 500 ''Internal Server Error'' (Inr ''''),
        delete_error = (\<lambda>n. None)\<rparr>
      (Some ''file:///rec.m4a'') \<lparr>files = {''file:///rec.m4a''}, delete_calls = []\<rparr>))"
  using transcribeAudio_deletes [of "''file:///rec.m4a''"
      "\<lparr>read_error = None, api_key = ''sk-test'',
        fetched = FetchResponse 500 ''Internal Server Error'' (Inr ''''),
        delete_error = (\<lambda>n. None)\<rparr>"
      "\<lparr>files = {''file:///rec.m4a''}, delete_calls = []\<rparr>"]
  by simp

text \<open>
  An exit path that leaves the file: reading the recording fails, and the deletion in the
  \<open>catch\<close> block fails too. That failure is logged and swallowed, the first error is
  thrown again, and the file is still there.
\<close>

theorem transcribeAudio_leaves_file_counterexample:
  "transcribeAudio
      \<lparr>read_error = Some (Error ''read failed''), api_key = ''sk-test'',
        fetched = FetchFailed (Error ''not reached''),
        delete_error = (\<lambda>n. Some (Error ''delete failed''))\<rparr>
      (Some ''file:///rec.m4a'') \<lparr>files = {''file:///rec.m4a''}, delete_calls = []\<rparr> =
   (Inl (Error ''read failed''),
    \<lparr>files = {''file:///rec.m4a''}, delete_calls = [''file:///rec.m4a'']\<rparr>)"
  by (simp add: transcribeAudio_def transcribe_try_def deleteAsync_def)

subsection \<open>Speech synthesis\<close>




text \<open>With \<open>onStart\<close> delivered in between, the second call stops the first synthesis.\<close>

lemma speak_after_onStart:
  "snd (speech_run
      [SpeakCalled ''A'' \<lparr>opt_rate = None, opt_pitch = None, opt_language = None, opt_voice = None\<rparr>,
       StartDelivered,
       SpeakCalled ''B'' \<lparr>opt_rate = None, opt_pitch = None, opt_language = None, opt_voice = None\<rparr>]
      (\<lparr>recording = None, isRecording = False, isPlaying = False,
        speechRate = Fin 1, speechPitch = Fin 1\<rparr>, [])) =
   [Speak ''A'' (Fin 1) (Fin 1) ''en-US'' None, Stop, Speak ''B'' (Fin 1) (Fin 1) ''en-US'' None]"
  by (simp add: speak_def speech_call_def str_or_def trim_def is_space_def Let_def onStart_def)

subsection \<open>Speech settings\<close>

lemma clamp_value:
  assumes "lo \<le> hi" and "x \<noteq> NaN"
  shows "Math_max (Fin lo) (Math_min (Fin hi) x) = nearest lo hi x"
  using assms by (cases x) (auto simp: Math_max_def Math_min_def nearest_def num_less_def)

lemma nearest_between:
  assumes "lo \<le> hi" and "x \<noteq> NaN"
  shows "between lo hi (nearest lo hi x)"
  using assms by (cases x) (auto simp: nearest_def num_less_def between_def)

lemma json_between: "between lo hi n \<Longrightarrow> json_number n = n"
  by (cases n) (simp_all add: between_def json_number_def)

lemma between_num_or:
  "between lo hi n \<Longrightarrow> lo \<le> 1 \<Longrightarrow> 1 \<le> hi \<Longrightarrow> between lo hi (num_or n (Fin 1))"
  by (simp add: num_or_def between_def)

text \<open>A configuration that \<open>validateConfig\<close> accepts has its defaults in the intervals.\<close>

lemma config_ok:
  assumes "validateConfig (ENV p) = Inr ()"
  shows "between 0.1 2.0 (DEFAULT_SPEECH_RATE (ENV p)) \<and>
         between 0.5 2.0 (DEFAULT_SPEECH_PITCH (ENV p))"
proof -
  from assms have e: "config_errors (ENV p) = []"
    by (simp add: validateConfig_def split: if_splits)
  have r: "between 0.1 2.0 (DEFAULT_SPEECH_RATE (ENV p))"
    using e by (cases "EXPO_PUBLIC_DEFAULT_SPEECH_RATE p")
      (auto simp: config_errors_def ENV_def num_or_def num_less_def between_def split: if_splits)
  have q: "between 0.5 2.0 (DEFAULT_SPEECH_PITCH (ENV p))"
    using e by (cases "EXPO_PUBLIC_DEFAULT_SPEECH_PITCH p")
      (auto simp: config_errors_def ENV_def num_or_def num_less_def between_def split: if_splits)
  from r q show ?thesis by simp
qed

lemma save_ok:
  assumes "settings_ok s"
  shows "settings_ok (saveUserPreferences ok s)"
proof (cases ok)
  case False
  with assms show ?thesis by (simp add: saveUserPreferences_def)
next
  case True
  from assms have r: "between 0.1 2.0 (speechRate (fst s))"
    and p: "between 0.5 2.0 (speechPitch (fst s))"
    by (simp_all add: settings_ok_def)
  from r have "between 0.1 2.0 (num_or (json_number (speechRate (fst s))) (Fin 1.0))"
    using between_num_or [of "0.1" "2.0" "speechRate (fst s)"] by (simp add: json_between)
  moreover from p have "between 0.5 2.0 (num_or (json_number (speechPitch (fst s))) (Fin 1.0))"
    using between_num_or [of "0.5" "2.0" "speechPitch (fst s)"] by (simp add: json_between)
  ultimately show ?thesis
    using True r p by (simp add: settings_ok_def saveUserPreferences_def stored_ok_def)
qed

lemma load_ok: "settings_ok s \<Longrightarrow> settings_ok (loadUserPreferences ok s)"
  by (auto simp: settings_ok_def loadUserPreferences_def stored_ok_def split: option.splits)

lemma reachable_ok: "reachable a_number s \<Longrightarrow> settings_ok s"
proof (induction rule: reachable.induct)
  case (first_run p)
  then show ?case
    using config_ok [of p] by (simp add: settings_ok_def VoiceService_def stored_ok_def)
next
  case (restart s p)
  then show ?case
    using config_ok [of p] by (simp add: settings_ok_def VoiceService_def)
next
  case (load s ok)
  from load.IH show ?case by (rule load_ok)
next
  case (set_rate s rate ok)
  from set_rate.hyps(2) have n: "rate \<noteq> NaN" by (simp add: a_number_def)
  have "(0.1::real) \<le> 2.0" by simp
  from nearest_between [OF this n] clamp_value [OF this n]
  have "between 0.1 2.0 (Math_max (Fin 0.1) (Math_min (Fin 2.0) rate))" by simp
  with set_rate.IH
  have "settings_ok ((fst s)\<lparr>speechRate := Math_max (Fin 0.1) (Math_min (Fin 2.0) rate)\<rparr>, snd s)"
    by (simp add: settings_ok_def)
  then show ?case unfolding setSpeechRate_def by (rule save_ok)
next
  case (set_pitch s pitch ok)
  from set_pitch.hyps(2) have n: "pitch \<noteq> NaN" by (simp add: a_number_def)
  have "(0.5::real) \<le> 2.0" by simp
  from nearest_between [OF this n] clamp_value [OF this n]
  have "between 0.5 2.0 (Math_max (Fin 0.5) (Math_min (Fin 2.0) pitch))" by simp
  with set_pitch.IH
  have "settings_ok ((fst s)\<lparr>speechPitch := Math_max (Fin 0.5) (Math_min (Fin 2.0) pitch)\<rparr>, snd s)"
    by (simp add: settings_ok_def)
  then show ?case unfolding setSpeechPitch_def by (rule save_ok)
qed

lemma set_rate_value:
  "speechRate (fst (setSpeechRate x ok s)) = Math_max (Fin 0.1) (Math_min (Fin 2.0) x)"
  by (simp add: setSpeechRate_def saveUserPreferences_def)

lemma set_pitch_value:
  "speechPitch (fst (setSpeechPitch x ok s)) = Math_max (Fin 0.5) (Math_min (Fin 2.0) x)"
  by (simp add: setSpeechPitch_def saveUserPreferences_def)

text \<open>
  C10, as the code has it. In every state of the voice service that is reached with
  arguments that are numbers (finite or infinite, but not NaN) the speech rate is in
  [0.1, 2.0] and the speech pitch is in [0.5, 2.0]. A call of \<open>setSpeechRate\<close> or
  \<open>setSpeechPitch\<close> with such an argument stores the nearest point of the interval (the
  argument itself when it is inside, the nearest bound otherwise) and leaves both settings
  in their intervals.
\<close>

theorem speech_settings_in_range:
  assumes "reachable a_number s" and "a_number x"
  shows "between 0.1 2.0 (speechRate (fst s)) \<and> between 0.5 2.0 (speechPitch (fst s)) \<and>
         speechRate (fst (setSpeechRate x ok s)) = nearest 0.1 2.0 x \<and>
         between 0.1 2.0 (speechRate (fst (setSpeechRate x ok s))) \<and>
         between 0.5 2.0 (speechPitch (fst (setSpeechRate x ok s))) \<and>
         speechPitch (fst (setSpeechPitch x ok s)) = nearest 0.5 2.0 x \<and>
         between 0.1 2.0 (speechRate (fst (setSpeechPitch x ok s))) \<and>
         between 0.5 2.0 (speechPitch (fst (setSpeechPitch x ok s)))"
proof -
  have a: "settings_ok s" using assms(1) by (rule reachable_ok)
  have b: "settings_ok (setSpeechRate x ok s)"
    using assms by (intro reachable_ok reachable.set_rate)
  have c: "settings_ok (setSpeechPitch x ok s)"
    using assms by (intro reachable_ok reachable.set_pitch)
  have d: "speechRate (fst (setSpeechRate x ok s)) = nearest 0.1 2.0 x"
    using clamp_value [of "0.1" "2.0" x] assms(2) by (simp add: set_rate_value a_number_def)
  have e: "speechPitch (fst (setSpeechPitch x ok s)) = nearest 0.5 2.0 x"
    using clamp_value [of "0.5" "2.0" x] assms(2) by (simp add: set_pitch_value a_number_def)
  from a b c d e show ?thesis by (simp add: settings_ok_def)
qed

theorem speech_settings_in_range_witness:
  "reachable a_number (VoiceService (ENV \<lparr>EXPO_PUBLIC_API_BASE_URL = None, EXPO_PUBLIC_OPENAI_API_KEY = None,
        EXPO_PUBLIC_DEFAULT_SPEECH_RATE = NaN, EXPO_PUBLIC_DEFAULT_SPEECH_PITCH = NaN,
        EXPO_PUBLIC_MAX_RECORDING_TIME = NaN\<rparr>), None) \<and>
   speechRate (fst (setSpeechRate (Fin 5) True
      (VoiceService (ENV \<lparr>EXPO_PUBLIC_API_BASE_URL = None, EXPO_PUBLIC_OPENAI_API_KEY = None,
        EXPO_PUBLIC_DEFAULT_SPEECH_RATE = NaN, EXPO_PUBLIC_DEFAULT_SPEECH_PITCH = NaN,
        EXPO_PUBLIC_MAX_RECORDING_TIME = NaN\<rparr>), None))) = Fin 2 \<and>
   speechPitch (fst (setSpeechPitch (Fin 0) True
      (VoiceService (ENV \<lparr>EXPO_PUBLIC_API_BASE_URL = None, EXPO_PUBLIC_OPENAI_API_KEY = None,
        EXPO_PUBLIC_DEFAULT_SPEECH_RATE = NaN, EXPO_PUBLIC_DEFAULT_SPEECH_PITCH = NaN,
        EXPO_PUBLIC_MAX_RECORDING_TIME = NaN\<rparr>), None))) = Fin (1 / 2)"
proof -
  let ?p = "\<lparr>EXPO_PUBLIC_API_BASE_URL = None, EXPO_PUBLIC_OPENAI_API_KEY = None,
        EXPO_PUBLIC_DEFAULT_SPEECH_RATE = NaN, EXPO_PUBLIC_DEFAULT_SPEECH_PITCH = NaN,
        EXPO_PUBLIC_MAX_RECORDING_TIME = NaN\<rparr>"
  have "validateConfig (ENV ?p) = Inr ()"
    by (simp add: validateConfig_def config_errors_def ENV_def num_or_def str_or_def num_less_def)
  then have r: "reachable a_number (VoiceService (ENV ?p), None)"
    by (rule reachable.first_run)
  have n5: "a_number (Fin 5)" and n0: "a_number (Fin 0)"
    by (simp_all add: a_number_def)
  from speech_settings_in_range [OF r n5, of True] speech_settings_in_range [OF r n0, of True] r
  show ?thesis
    by (simp add: nearest_def num_less_def)
qed

text \<open>
  The argument NaN: \<open>Math.min\<close> and \<open>Math.max\<close> hand it through, \<open>setSpeechRate\<close>
  stores it, and the state reached has a rate outside the interval.
\<close>

theorem setSpeechRate_NaN_counterexample:
  "reachable any_argument (setSpeechRate NaN True
      (VoiceService (ENV \<lparr>EXPO_PUBLIC_API_BASE_URL = None, EXPO_PUBLIC_OPENAI_API_KEY = None,
        EXPO_PUBLIC_DEFAULT_SPEECH_RATE = NaN, EXPO_PUBLIC_DEFAULT_SPEECH_PITCH = NaN,
        EXPO_PUBLIC_MAX_RECORDING_TIME = NaN\<rparr>), None)) \<and>
   speechRate (fst (setSpeechRate NaN True
      (VoiceService (ENV \<lparr>EXPO_PUBLIC_API_BASE_URL = None, EXPO_PUBLIC_OPENAI_API_KEY = None,
        EXPO_PUBLIC_DEFAULT_SPEECH_RATE = NaN, EXPO_PUBLIC_DEFAULT_SPEECH_PITCH = NaN,
        EXPO_PUBLIC_MAX_RECORDING_TIME = NaN\<rparr>), None))) = NaN \<and>
   \<not> between 0.1 2.0 (speechRate (fst (setSpeechRate NaN True
      (VoiceService (ENV \<lparr>EXPO_PUBLIC_API_BASE_URL = None, EXPO_PUBLIC_OPENAI_API_KEY = None,
        EXPO_PUBLIC_DEFAULT_SPEECH_RATE = NaN, EXPO_PUBLIC_DEFAULT_SPEECH_PITCH = NaN,
        EXPO_PUBLIC_MAX_RECORDING_TIME = NaN\<rparr>), None))))"
proof -
  let ?p = "\<lparr>EXPO_PUBLIC_API_BASE_URL = None, EXPO_PUBLIC_OPENAI_API_KEY = None,
        EXPO_PUBLIC_DEFAULT_SPEECH_RATE = NaN, EXPO_PUBLIC_DEFAULT_SPEECH_PITCH = NaN,
        EXPO_PUBLIC_MAX_RECORDING_TIME = NaN\<rparr>"
  have "validateConfig (ENV ?p) = Inr ()"
    by (simp add: validateConfig_def config_errors_def ENV_def num_or_def str_or_def num_less_def)
  then have "reachable any_argument (VoiceService (ENV ?p), None)"
    by (rule reachable.first_run)
  moreover have "any_argument NaN"
    by (simp add: any_argument_def)
  ultimately have r: "reachable any_argument (setSpeechRate NaN True (VoiceService (ENV ?p), None))"
    by (rule reachable.set_rate)
  have v: "speechRate (fst (setSpeechRate NaN True (VoiceService (ENV ?p), None))) = NaN"
    by (simp add: set_rate_value Math_max_def Math_min_def)
  then have "\<not> between 0.1 2.0 (speechRate (fst (setSpeechRate NaN True
      (VoiceService (ENV ?p), None))))"
    by (simp add: between_def)
  with r v show ?thesis by blast
qed

section \<open>Properties of the voice button\<close>














end
